theory Spec2Isabelle
  imports Complex_Main
begin

section \<open>p5.PeakDetect (src/peakDetect.js)\<close>

text \<open>
  The detector is one JavaScript object with numeric fields, a boolean and a slot holding
  the observer. Numbers are modelled as \<^typ>\<open>real\<close>: the arithmetic of the source
  (\<open>/255\<close>, \<open>* 1.1\<close>, \<open>*= decayRate\<close>, \<open>Math.max\<close>, \<open>++\<close>) is taken exactly, so
  rounding of IEEE doubles and the values NaN and Infinity are outside the model.
  Mutation is explicit state passing: a method takes the object and returns it updated.
\<close>

subsection \<open>Values that cross the interface\<close>

text \<open>
  A constructor parameter is optional: it is either left out (\<open>undefined\<close>) or a Number.
\<close>

datatype arg = Omitted | Num real

text \<open>
  \<open>a || d\<close>: the left operand when it is truthy, otherwise the right one.
  \<open>undefined\<close> and the number \<open>0\<close> are falsy, every other number is truthy.
\<close>

fun truthy :: "arg \<Rightarrow> bool" where
  "truthy Omitted = False"
| "truthy (Num x) = (x \<noteq> 0)"

fun or_default :: "arg \<Rightarrow> real \<Rightarrow> real" where
  "or_default Omitted d = d"
| "or_default (Num x) d = (if truthy (Num x) then x else d)"

text \<open>
  The analyser handed to \<open>update\<close> is code outside this file and is taken as a
  parameter. The detector only calls its method \<open>getEnergy(f1, f2)\<close>, which reads the
  spectrum analysed before the call, so the object is its band energy as a function of the
  two frequencies.
\<close>

datatype FFT = FFT (getEnergy: "real \<Rightarrow> real \<Rightarrow> real")

text \<open>
  A user callback receives the energy and the payload (type \<open>'p\<close>) and acts on the
  world outside the detector (type \<open>'w\<close>); it either returns (\<open>Inr\<close>, the world it
  leaves) or throws (\<open>Inl\<close>, the thrown value of type \<open>'x\<close>). An observer that also
  writes the detector it is registered with is the subject of \<open>update_by\<close> below. The slot
  \<open>_onPeak\<close> holds one of the two closures the source creates: \<open>function() {}\<close> of
  the constructor, or \<open>function() { callback(self.energy, val); }\<close> of \<open>onPeak\<close>,
  which captures \<open>callback\<close> and \<open>val\<close>.
\<close>

type_synonym ('p, 'x, 'w) callback = "real \<Rightarrow> 'p \<Rightarrow> 'w \<Rightarrow> 'x + 'w"

datatype ('p, 'x, 'w) closure = Noop | Closure "('p, 'x, 'w) callback" 'p

subsection \<open>The object\<close>

record ('p, 'x, 'w) peakDetect =
  framesPerPeak :: real
  framesSinceLastPeak :: real
  decayRate :: real
  threshold :: real
  cutoff :: real
  energy :: real
  penergy :: real
  isDetected :: bool
  f1 :: real
  f2 :: real
  priv_onPeak :: "('p, 'x, 'w) closure"

text \<open>\<open>priv_onPeak\<close> is the field \<open>_onPeak\<close> of the source.\<close>

text \<open>
  Calling the closure in the slot. \<open>self\<close> is the detector at the moment of the call:
  the closure of \<open>onPeak\<close> reads \<open>self.energy\<close> when it runs, not when it was made.
\<close>

fun call_onPeak :: "('p, 'x, 'w) closure \<Rightarrow> ('p, 'x, 'w) peakDetect \<Rightarrow> 'w \<Rightarrow> 'x + 'w" where
  "call_onPeak Noop self w = Inr w"
| "call_onPeak (Closure callback val) self w = callback (energy self) val w"

subsection \<open>Constructor\<close>

definition PeakDetect :: "arg \<Rightarrow> arg \<Rightarrow> arg \<Rightarrow> arg \<Rightarrow> ('p, 'x, 'w) peakDetect" where
  "PeakDetect freq1 freq2 thresholdArg framesPerPeakArg =
     \<lparr> framesPerPeak = or_default framesPerPeakArg 5,
       framesSinceLastPeak = 0,
       decayRate = 0.95,
       threshold = or_default thresholdArg 0.25,
       cutoff = 0,
       energy = 0,
       penergy = 0,
       isDetected = False,
       f1 = or_default freq1 40,
       f2 = or_default freq2 20000,
       priv_onPeak = Noop \<rparr>"

subsection \<open>update\<close>

text \<open>
  One call of \<open>update(fftObject)\<close> in world \<open>w\<close>. It returns \<open>Inr\<close> with the
  detector and the world as the call leaves them, or \<open>Inl\<close> when the observer throws:
  the exception leaves \<open>update\<close> at the call \<open>this._onPeak()\<close>, after
  \<open>this.energy\<close> has been assigned and before any other field is.
\<close>

definition update ::
  "('p, 'x, 'w) peakDetect \<Rightarrow> FFT \<Rightarrow> 'w \<Rightarrow>
     ('x \<times> ('p, 'x, 'w) peakDetect) + (('p, 'x, 'w) peakDetect \<times> 'w)" where
  "update this fftObject w =
     (let nrg = getEnergy fftObject (f1 this) (f2 this) / 255;
          this = this\<lparr>energy := nrg\<rparr>
      in if nrg > cutoff this \<and> nrg > threshold this \<and> nrg - penergy this > 0 then
           (case call_onPeak (priv_onPeak this) this w of
              Inl x \<Rightarrow> Inl (x, this)
            | Inr w' \<Rightarrow>
                Inr (this\<lparr>isDetected := True,
                          cutoff := nrg * 1.1,
                          framesSinceLastPeak := 0,
                          penergy := nrg\<rparr>, w'))
         else
           (let this = this\<lparr>isDetected := False\<rparr>;
                this = (if framesSinceLastPeak this \<le> framesPerPeak this
                        then this\<lparr>framesSinceLastPeak := framesSinceLastPeak this + 1\<rparr>
                        else (let this = this\<lparr>cutoff := cutoff this * decayRate this\<rparr>
                              in this\<lparr>cutoff := max (cutoff this) (threshold this)\<rparr>))
            in Inr (this\<lparr>penergy := nrg\<rparr>, w)))"

subsection \<open>onPeak\<close>

definition onPeak ::
  "('p, 'x, 'w) peakDetect \<Rightarrow> ('p, 'x, 'w) callback \<Rightarrow> 'p \<Rightarrow> ('p, 'x, 'w) peakDetect" where
  "onPeak self callback val = self\<lparr>priv_onPeak := Closure callback val\<rparr>"

subsection \<open>The draw loop\<close>

text \<open>
  The caller runs \<open>update\<close> once per frame, each time on a freshly analysed spectrum.
  An exception of the observer ends the run.
\<close>

fun updates ::
  "('p, 'x, 'w) peakDetect \<Rightarrow> FFT list \<Rightarrow> 'w \<Rightarrow>
     ('x \<times> ('p, 'x, 'w) peakDetect) + (('p, 'x, 'w) peakDetect \<times> 'w)" where
  "updates d [] w = Inr (d, w)"
| "updates d (fft # ffts) w =
     (case update d fft w of
        Inl err \<Rightarrow> Inl err
      | Inr (d', w') \<Rightarrow> updates d' ffts w')"

text \<open>The energy sample a call of \<open>update\<close> reads from the analyser.\<close>

definition sample :: "('p, 'x, 'w) peakDetect \<Rightarrow> FFT \<Rightarrow> real" where
  "sample d fft = getEnergy fft (f1 d) (f2 d) / 255"

text \<open>An analysed spectrum whose band energy normalises to the sample \<open>e\<close>, for every band.\<close>

definition analysed :: "real \<Rightarrow> FFT" where
  "analysed e = FFT (\<lambda>lo hi. e * 255)"

text \<open>The detector as a call leaves it, whether it returned or threw.\<close>

definition left :: "('x \<times> ('p, 'x, 'w) peakDetect) + (('p, 'x, 'w) peakDetect \<times> 'w) \<Rightarrow> ('p, 'x, 'w) peakDetect" where
  "left r = (case r of Inl (x, d) \<Rightarrow> d | Inr (d, w) \<Rightarrow> d)"

subsection \<open>States and runs the properties speak of\<close>

text \<open>
  The states a detector can be in: the constructor makes one, \<open>update\<close> (returning or
  cut short by the observer) and \<open>onPeak\<close> lead from one to the next.
\<close>

inductive reachable :: "('p, 'x, 'w) peakDetect \<Rightarrow> bool" where
  constructed: "reachable (PeakDetect freq1 freq2 thresholdArg framesPerPeakArg)"
| updated: "reachable d \<Longrightarrow> update d fft w = Inr (d', w') \<Longrightarrow> reachable d'"
| interrupted: "reachable d \<Longrightarrow> update d fft w = Inl (x, d') \<Longrightarrow> reachable d'"
| registered: "reachable d \<Longrightarrow> reachable (onPeak d callback val)"

text \<open>A run of frames none of which fires a peak: every call leaves \<open>isDetected\<close> false.\<close>

fun no_peaks :: "('p, 'x, 'w) peakDetect \<Rightarrow> FFT list \<Rightarrow> 'w \<Rightarrow> bool" where
  "no_peaks d [] w = True"
| "no_peaks d (fft # ffts) w =
     (case update d fft w of
        Inl err \<Rightarrow> False
      | Inr (d', w') \<Rightarrow> \<not> isDetected d' \<and> no_peaks d' ffts w')"

text \<open>
  The first frames of a new detector: \<open>k\<close> calls so far, each of which only counted
  \<open>framesSinceLastPeak\<close> up, so that \<open>cutoff\<close> still has the value \<open>0\<close> of the
  constructor.
\<close>

definition initial_window :: "nat \<Rightarrow> ('p, 'x, 'w) peakDetect \<Rightarrow> bool" where
  "initial_window k d \<longleftrightarrow>
     cutoff d = 0 \<and> \<not> isDetected d \<and> framesSinceLastPeak d = real k \<and>
     real k \<le> max 0 (framesPerPeak d + 1)"

subsection \<open>update, when the observer may write the detector\<close>

text \<open>
  The call \<open>this._onPeak()\<close> runs user code, and user code that holds a reference to
  the detector can assign its fields. A function that takes the detector cannot be stored
  inside the detector's own type, so here the code the slot holds is the parameter
  \<open>onPeakCode\<close>: it takes the detector and the world and leaves both, returning
  (\<open>Inr\<close>) or throwing (\<open>Inl\<close>). The body is that of \<open>update\<close>, line for line;
  the four assignments after the call act on the detector as the observer left it.
  \<open>update\<close> is the instance whose observer runs the closure in the slot and leaves the
  detector alone (\<open>update_by_slot\<close> below).
\<close>

definition update_by ::
  "(('p, 'x, 'w) peakDetect \<Rightarrow> 'w \<Rightarrow>
      ('x \<times> ('p, 'x, 'w) peakDetect) + (('p, 'x, 'w) peakDetect \<times> 'w)) \<Rightarrow>
   ('p, 'x, 'w) peakDetect \<Rightarrow> FFT \<Rightarrow> 'w \<Rightarrow>
     ('x \<times> ('p, 'x, 'w) peakDetect) + (('p, 'x, 'w) peakDetect \<times> 'w)" where
  "update_by onPeakCode this fftObject w =
     (let nrg = getEnergy fftObject (f1 this) (f2 this) / 255;
          this = this\<lparr>energy := nrg\<rparr>
      in if nrg > cutoff this \<and> nrg > threshold this \<and> nrg - penergy this > 0 then
           (case onPeakCode this w of
              Inl (x, this) \<Rightarrow> Inl (x, this)
            | Inr (this, w') \<Rightarrow>
                Inr (this\<lparr>isDetected := True,
                          cutoff := nrg * 1.1,
                          framesSinceLastPeak := 0,
                          penergy := nrg\<rparr>, w'))
         else
           (let this = this\<lparr>isDetected := False\<rparr>;
                this = (if framesSinceLastPeak this \<le> framesPerPeak this
                        then this\<lparr>framesSinceLastPeak := framesSinceLastPeak this + 1\<rparr>
                        else (let this = this\<lparr>cutoff := cutoff this * decayRate this\<rparr>
                              in this\<lparr>cutoff := max (cutoff this) (threshold this)\<rparr>))
            in Inr (this\<lparr>penergy := nrg\<rparr>, w)))"

text \<open>The observer of \<open>update\<close>: it runs the closure in the slot and leaves the detector alone.\<close>

definition slot_code ::
  "('p, 'x, 'w) peakDetect \<Rightarrow> 'w \<Rightarrow>
     ('x \<times> ('p, 'x, 'w) peakDetect) + (('p, 'x, 'w) peakDetect \<times> 'w)" where
  "slot_code this w =
     (case call_onPeak (priv_onPeak this) this w of
        Inl x \<Rightarrow> Inl (x, this)
      | Inr w' \<Rightarrow> Inr (this, w'))"

text \<open>Two detectors agree on what the constructor configures.\<close>

definition same_config :: "('p, 'x, 'w) peakDetect \<Rightarrow> ('p, 'x, 'w) peakDetect \<Rightarrow> bool" where
  "same_config a b \<longleftrightarrow>
     f1 a = f1 b \<and> f2 a = f2 b \<and> threshold a = threshold b \<and>
     framesPerPeak a = framesPerPeak b \<and> decayRate a = decayRate b"

text \<open>
  \<open>a\<close> is \<open>d\<close> with at most \<open>energy\<close>, \<open>penergy\<close>, \<open>cutoff\<close>,
  \<open>framesSinceLastPeak\<close> and \<open>isDetected\<close> assigned.
\<close>

definition state_only :: "('p, 'x, 'w) peakDetect \<Rightarrow> ('p, 'x, 'w) peakDetect \<Rightarrow> bool" where
  "state_only a d \<longleftrightarrow>
     a = d\<lparr>energy := energy a, penergy := penergy a, cutoff := cutoff a,
           framesSinceLastPeak := framesSinceLastPeak a, isDetected := isDetected a\<rparr>"

section \<open>Basic facts\<close>

lemma sample_analysed: "sample d (analysed e) = e"
  by (simp add: sample_def analysed_def)

lemma update_cases:
  "update d fft w =
     (if cutoff d < sample d fft \<and> threshold d < sample d fft \<and> penergy d < sample d fft then
        (case call_onPeak (priv_onPeak d) (d\<lparr>energy := sample d fft\<rparr>) w of
           Inl x \<Rightarrow> Inl (x, d\<lparr>energy := sample d fft\<rparr>)
         | Inr w' \<Rightarrow>
             Inr (d\<lparr>energy := sample d fft, isDetected := True, cutoff := sample d fft * 1.1,
                    framesSinceLastPeak := 0, penergy := sample d fft\<rparr>, w'))
      else if framesSinceLastPeak d \<le> framesPerPeak d then
        Inr (d\<lparr>energy := sample d fft, isDetected := False,
               framesSinceLastPeak := framesSinceLastPeak d + 1, penergy := sample d fft\<rparr>, w)
      else
        Inr (d\<lparr>energy := sample d fft, isDetected := False,
               cutoff := max (cutoff d * decayRate d) (threshold d), penergy := sample d fft\<rparr>, w))"
  by (simp add: update_def sample_def Let_def split: sum.splits)

lemma left_update:
  "left (update d fft w) =
     (if cutoff d < sample d fft \<and> threshold d < sample d fft \<and> penergy d < sample d fft then
        (case call_onPeak (priv_onPeak d) (d\<lparr>energy := sample d fft\<rparr>) w of
           Inl x \<Rightarrow> d\<lparr>energy := sample d fft\<rparr>
         | Inr w' \<Rightarrow>
             d\<lparr>energy := sample d fft, penergy := sample d fft, cutoff := sample d fft * 1.1,
               framesSinceLastPeak := 0, isDetected := True\<rparr>)
      else if framesSinceLastPeak d \<le> framesPerPeak d then
        d\<lparr>energy := sample d fft, penergy := sample d fft,
          framesSinceLastPeak := framesSinceLastPeak d + 1, isDetected := False\<rparr>
      else
        d\<lparr>energy := sample d fft, penergy := sample d fft,
          cutoff := max (cutoff d * decayRate d) (threshold d), isDetected := False\<rparr>)"
  by (simp add: update_cases left_def split: sum.splits)

text \<open>What a returning call never touches.\<close>

lemma update_config:
  assumes "update d fft w = Inr (d', w')"
  shows "threshold d' = threshold d" "framesPerPeak d' = framesPerPeak d"
    "decayRate d' = decayRate d" "f1 d' = f1 d" "f2 d' = f2 d" "priv_onPeak d' = priv_onPeak d"
  using assms by (auto simp: update_cases split: if_splits sum.splits)

text \<open>
  The only call that can fail is the one to the observer: a frame that fires no peak
  returns, and so does every frame of a detector whose observer returns.
\<close>

lemma update_returns:
  assumes "call_onPeak (priv_onPeak d) (d\<lparr>energy := sample d fft\<rparr>) w = Inr w'"
  shows "\<exists>d' w''. update d fft w = Inr (d', w'')"
  using assms by (simp add: update_cases)

lemma update_throws:
  assumes "update d fft w = Inl (x, d')"
  shows "cutoff d < sample d fft \<and> threshold d < sample d fft \<and> penergy d < sample d fft"
    and "call_onPeak (priv_onPeak d) (d\<lparr>energy := sample d fft\<rparr>) w = Inl x"
    and "d' = d\<lparr>energy := sample d fft\<rparr>"
  using assms by (auto simp: update_cases split: if_splits sum.splits)

lemma update_Noop:
  assumes "priv_onPeak d = Noop"
  shows "\<exists>d'. update d fft w = Inr (d', w) \<and> priv_onPeak d' = Noop"
  using assms by (simp add: update_cases)

lemma updates_Noop:
  assumes "priv_onPeak d = Noop"
  shows "\<exists>d'. updates d ffts w = Inr (d', w) \<and> priv_onPeak d' = Noop"
  using assms
proof (induction ffts arbitrary: d)
  case Nil
  then show ?case by simp
next
  case (Cons fft ffts)
  from update_Noop [OF Cons.prems] obtain d1
    where d1: "update d fft w = Inr (d1, w)" "priv_onPeak d1 = Noop" by blast
  with Cons.IH [OF d1(2)] show ?case by simp
qed

subsection \<open>The observer that may write the detector\<close>

lemma update_by_cases:
  "update_by onPeakCode d fft w =
     (if cutoff d < sample d fft \<and> threshold d < sample d fft \<and> penergy d < sample d fft then
        (case onPeakCode (d\<lparr>energy := sample d fft\<rparr>) w of
           Inl (x, d') \<Rightarrow> Inl (x, d')
         | Inr (d', w') \<Rightarrow>
             Inr (d'\<lparr>isDetected := True, cutoff := sample d fft * 1.1,
                     framesSinceLastPeak := 0, penergy := sample d fft\<rparr>, w'))
      else if framesSinceLastPeak d \<le> framesPerPeak d then
        Inr (d\<lparr>energy := sample d fft, isDetected := False,
               framesSinceLastPeak := framesSinceLastPeak d + 1, penergy := sample d fft\<rparr>, w)
      else
        Inr (d\<lparr>energy := sample d fft, isDetected := False,
               cutoff := max (cutoff d * decayRate d) (threshold d), penergy := sample d fft\<rparr>, w))"
  by (simp add: update_by_def sample_def Let_def split: sum.splits prod.splits)

text \<open>\<open>update\<close> is \<open>update_by\<close> with the observer that only runs the slot.\<close>

lemma update_by_slot: "update d fft w = update_by slot_code d fft w"
  by (simp add: update_cases update_by_cases slot_code_def split: sum.splits)

lemma same_config_refl: "same_config d d"
  by (simp add: same_config_def)

lemma state_only_refl: "state_only d d"
  by (simp add: state_only_def)

text \<open>
  On a frame that fires no peak the observer is not called, whatever it is.
\<close>

lemma update_by_no_peak:
  assumes "\<not> (cutoff d < sample d fft \<and> threshold d < sample d fft \<and> penergy d < sample d fft)"
  shows "same_config (left (update_by onPeakCode d fft w)) d"
    and "state_only (left (update_by onPeakCode d fft w)) d"
  using assms by (auto simp: update_by_cases left_def same_config_def state_only_def)

text \<open>
  On a frame that fires a peak, the assignments of \<open>update\<close> itself leave the five
  configured fields as the observer left them.
\<close>

lemma update_by_peak:
  assumes "cutoff d < sample d fft \<and> threshold d < sample d fft \<and> penergy d < sample d fft"
  shows "same_config (left (update_by onPeakCode d fft w))
           (left (onPeakCode (d\<lparr>energy := sample d fft\<rparr>) w))"
  using assms
  by (auto simp: update_by_cases left_def same_config_def split: sum.splits prod.splits)

lemma update_by_peak_state_only:
  assumes "cutoff d < sample d fft \<and> threshold d < sample d fft \<and> penergy d < sample d fft"
    and "state_only (left (onPeakCode (d\<lparr>energy := sample d fft\<rparr>) w)) d"
  shows "state_only (left (update_by onPeakCode d fft w)) d"
proof (cases "onPeakCode (d\<lparr>energy := sample d fft\<rparr>) w")
  case (Inl a)
  then obtain x d' where a: "a = (x, d')" by (cases a)
  with Inl assms show ?thesis
    by (simp add: update_by_cases left_def)
next
  case (Inr b)
  then obtain d' w' where b: "b = (d', w')" by (cases b)
  from assms(2) Inr b have s: "d' = d\<lparr>energy := energy d', penergy := penergy d', cutoff := cutoff d',
           framesSinceLastPeak := framesSinceLastPeak d', isDetected := isDetected d'\<rparr>"
    by (simp add: left_def state_only_def)
  have "d'\<lparr>isDetected := True, cutoff := sample d fft * 1.1,
                     framesSinceLastPeak := 0, penergy := sample d fft\<rparr>
     = d\<lparr>energy := energy d', penergy := sample d fft, cutoff := sample d fft * 1.1,
           framesSinceLastPeak := 0, isDetected := True\<rparr>"
    by (subst s) simp
  with Inr b assms(1) show ?thesis
    by (simp add: update_by_cases left_def state_only_def)
qed

section \<open>The peak decision\<close>

text \<open>
  Claim C1. Whatever the state of the detector and whatever the energy sample, a call of
  \<open>update\<close> that returns leaves \<open>isDetected\<close> true exactly when, in the state before
  the call, the sample exceeds \<open>cutoff\<close>, exceeds \<open>threshold\<close> and strictly exceeds the
  previous sample \<open>penergy\<close> (the source tests \<open>nrg - penergy > 0\<close>). And the call does
  return: when one of the three conditions fails it returns with \<open>isDetected\<close> false and
  the world untouched; when all three hold it returns with \<open>isDetected\<close> true as soon as
  the observer returns, and the only call that does not return is the one in which the
  user's observer itself throws.
\<close>

theorem C1_isDetected_iff_three_conditions:
  "(\<forall>d' w'. update d fft w = Inr (d', w') \<longrightarrow>
      (isDetected d' \<longleftrightarrow>
         (sample d fft > cutoff d \<and> sample d fft > threshold d \<and> sample d fft > penergy d))) \<and>
   (if sample d fft > cutoff d \<and> sample d fft > threshold d \<and> sample d fft > penergy d
    then (case call_onPeak (priv_onPeak d) (d\<lparr>energy := sample d fft\<rparr>) w of
            Inr w' \<Rightarrow> \<exists>d'. update d fft w = Inr (d', w') \<and> isDetected d'
          | Inl x \<Rightarrow> update d fft w = Inl (x, d\<lparr>energy := sample d fft\<rparr>))
    else (\<exists>d'. update d fft w = Inr (d', w) \<and> \<not> isDetected d'))"
  by (auto simp: update_cases split: if_splits sum.splits)

theorem C1_witness:
  "(\<exists>d'. update (PeakDetect Omitted Omitted Omitted Omitted :: (unit, unit, unit) peakDetect)
            (analysed (1/2)) () = Inr (d', ()) \<and> isDetected d') \<and>
   (\<exists>d'. update (PeakDetect Omitted Omitted Omitted Omitted :: (unit, unit, unit) peakDetect)
            (analysed (1/10)) () = Inr (d', ()) \<and> \<not> isDetected d') \<and>
   (\<exists>d'. update ((PeakDetect Omitted Omitted Omitted Omitted :: (unit, unit, unit) peakDetect)
                   \<lparr>isDetected := True, penergy := 1/2, cutoff := 11/20\<rparr>)
            (analysed (1/2)) () = Inr (d', ()) \<and> \<not> isDetected d')"
proof -
  let ?new = "PeakDetect Omitted Omitted Omitted Omitted :: (unit, unit, unit) peakDetect"
  let ?fired = "?new\<lparr>isDetected := True, penergy := 1/2, cutoff := 11/20\<rparr>"
  have "\<exists>d'. update ?new (analysed (1/2)) () = Inr (d', ()) \<and> isDetected d'"
    using C1_isDetected_iff_three_conditions [of ?new "analysed (1/2)" "()"]
    by (simp add: sample_analysed PeakDetect_def)
  moreover have "\<exists>d'. update ?new (analysed (1/10)) () = Inr (d', ()) \<and> \<not> isDetected d'"
    using C1_isDetected_iff_three_conditions [of ?new "analysed (1/10)" "()"]
    by (simp add: sample_analysed PeakDetect_def)
  moreover have "\<exists>d'. update ?fired (analysed (1/2)) () = Inr (d', ()) \<and> \<not> isDetected d'"
    using C1_isDetected_iff_three_conditions [of ?fired "analysed (1/2)" "()"]
    by (simp add: sample_analysed PeakDetect_def)
  ultimately show ?thesis by blast
qed

text \<open>
  Claim C6. When a call of \<open>update\<close> fires a peak on the sample \<open>e\<close> (it returns with
  \<open>isDetected\<close> set, which by the previous theorem is to say that the three conditions
  held), then right after the call \<open>cutoff = e * 1.1\<close>, \<open>framesSinceLastPeak = 0\<close> and
  \<open>penergy = e\<close>, so that \<open>cutoff = penergy * 1.1\<close>.
\<close>

theorem C6_state_after_fired_peak:
  assumes "update d fft w = Inr (d', w')" and "isDetected d'"
  shows "cutoff d' = sample d fft * 1.1 \<and> framesSinceLastPeak d' = 0 \<and>
         penergy d' = sample d fft \<and> cutoff d' = penergy d' * 1.1"
  using assms by (auto simp: update_cases split: if_splits sum.splits)

theorem C6_witness:
  "update (PeakDetect Omitted Omitted Omitted (Num 2) :: (unit, unit, unit) peakDetect)
       (analysed (3/10)) ()
     = Inr (PeakDetect Omitted Omitted Omitted (Num 2)
              \<lparr>energy := 3/10, isDetected := True, cutoff := 33/100, penergy := 3/10\<rparr>, ())
   \<and> cutoff (PeakDetect Omitted Omitted Omitted (Num 2)
              \<lparr>energy := 3/10, isDetected := True, cutoff := 33/100, penergy := 3/10\<rparr>
              :: (unit, unit, unit) peakDetect)
       = sample (PeakDetect Omitted Omitted Omitted (Num 2) :: (unit, unit, unit) peakDetect)
           (analysed (3/10)) * 1.1"
proof -
  let ?d = "PeakDetect Omitted Omitted Omitted (Num 2) :: (unit, unit, unit) peakDetect"
  have h: "update ?d (analysed (3/10)) ()
     = Inr (?d\<lparr>energy := 3/10, isDetected := True, cutoff := 33/100, penergy := 3/10\<rparr>, ())"
    by (simp add: update_cases sample_analysed PeakDetect_def)
  have i: "isDetected (?d\<lparr>energy := 3/10, isDetected := True, cutoff := 33/100, penergy := 3/10\<rparr>)"
    by simp
  show ?thesis
    using h C6_state_after_fired_peak [OF h i] by simp
qed

section \<open>What update leaves alone\<close>

text \<open>For the observers of \<open>update\<close>, which act on the outside world only, no proviso is needed.\<close>

lemma update_frame:
  "same_config (left (update d fft w)) d" and "state_only (left (update d fft w)) d"
  by (auto simp: left_update same_config_def state_only_def split: sum.splits)

text \<open>
  Claim C9. A call of \<open>update\<close> leaves \<open>f1\<close>, \<open>f2\<close>, \<open>threshold\<close>,
  \<open>framesPerPeak\<close> and \<open>decayRate\<close> as they were, and the detector after the call is
  the detector before it with at most \<open>energy\<close>, \<open>penergy\<close>, \<open>cutoff\<close>,
  \<open>framesSinceLastPeak\<close> and \<open>isDetected\<close> assigned. The body of \<open>update\<close> assigns
  no other field, but on a frame that fires a peak it runs the observer, which is user code
  and may write the detector. So the statement carries a proviso, on such a frame only:
  the five configured fields are unchanged provided the observer leaves them as they were,
  and nothing but the five state fields changes provided the observer assigned nothing but
  these. On a frame that fires no peak there is no proviso. The statement covers the call
  that returns and the one the observer's exception cuts short.
\<close>

theorem C9_update_frame:
  fixes onPeakCode :: "('p, 'x, 'w) peakDetect \<Rightarrow> 'w \<Rightarrow>
      ('x \<times> ('p, 'x, 'w) peakDetect) + (('p, 'x, 'w) peakDetect \<times> 'w)"
  shows
    "((cutoff d < sample d fft \<and> threshold d < sample d fft \<and> penergy d < sample d fft \<longrightarrow>
         same_config (left (onPeakCode (d\<lparr>energy := sample d fft\<rparr>) w)) d)
        \<longrightarrow> same_config (left (update_by onPeakCode d fft w)) d) \<and>
     ((cutoff d < sample d fft \<and> threshold d < sample d fft \<and> penergy d < sample d fft \<longrightarrow>
         state_only (left (onPeakCode (d\<lparr>energy := sample d fft\<rparr>) w)) d)
        \<longrightarrow> state_only (left (update_by onPeakCode d fft w)) d)"
proof (cases "cutoff d < sample d fft \<and> threshold d < sample d fft \<and> penergy d < sample d fft")
  case True
  have "same_config (left (update_by onPeakCode d fft w)) d"
    if "same_config (left (onPeakCode (d\<lparr>energy := sample d fft\<rparr>) w)) d"
    using update_by_peak [OF True, of onPeakCode w] that by (simp add: same_config_def)
  moreover have "state_only (left (update_by onPeakCode d fft w)) d"
    if "state_only (left (onPeakCode (d\<lparr>energy := sample d fft\<rparr>) w)) d"
    using update_by_peak_state_only [of d fft onPeakCode w] True that by blast
  ultimately show ?thesis using True by blast
next
  case False
  from update_by_no_peak [OF False] show ?thesis by blast
qed

theorem C9_witness:
  "threshold (left (update_by (\<lambda>this w. Inr (this\<lparr>cutoff := 0, energy := 7\<rparr>, Suc w))
       (PeakDetect Omitted Omitted (Num (1/2)) Omitted :: (unit, unit, nat) peakDetect)
       (analysed (3/4)) (0::nat)
       :: (unit \<times> (unit, unit, nat) peakDetect) + ((unit, unit, nat) peakDetect \<times> nat))) = 1/2
   \<and> decayRate (left (update_by (\<lambda>this w. Inr (this\<lparr>cutoff := 0, energy := 7\<rparr>, Suc w))
       (PeakDetect Omitted Omitted (Num (1/2)) Omitted :: (unit, unit, nat) peakDetect)
       (analysed (3/4)) (0::nat)
       :: (unit \<times> (unit, unit, nat) peakDetect) + ((unit, unit, nat) peakDetect \<times> nat))) = 19/20
   \<and> threshold (left (update_by (\<lambda>this w. Inr (this, w))
       (PeakDetect Omitted Omitted (Num (1/2)) Omitted :: (unit, unit, nat) peakDetect)
       (analysed (1/4)) (0::nat)
       :: (unit \<times> (unit, unit, nat) peakDetect) + ((unit, unit, nat) peakDetect \<times> nat))) = 1/2"
proof -
  let ?new = "PeakDetect Omitted Omitted (Num (1/2)) Omitted :: (unit, unit, nat) peakDetect"
  let ?writes = "(\<lambda>this w. Inr (this\<lparr>cutoff := 0, energy := 7\<rparr>, Suc w))
     :: (unit, unit, nat) peakDetect \<Rightarrow> nat \<Rightarrow>
        (unit \<times> (unit, unit, nat) peakDetect) + ((unit, unit, nat) peakDetect \<times> nat)"
  let ?quiet = "(\<lambda>this w. Inr (this, w))
     :: (unit, unit, nat) peakDetect \<Rightarrow> nat \<Rightarrow>
        (unit \<times> (unit, unit, nat) peakDetect) + ((unit, unit, nat) peakDetect \<times> nat)"
  have p: "same_config (left (?writes (?new\<lparr>energy := sample ?new (analysed (3/4))\<rparr>) 0)) ?new"
    by (simp add: same_config_def left_def)
  have q: "\<not> (cutoff ?new < sample ?new (analysed (1/4)) \<and>
              threshold ?new < sample ?new (analysed (1/4)) \<and>
              penergy ?new < sample ?new (analysed (1/4)))"
    by (simp add: sample_analysed PeakDetect_def)
  have "same_config (left (update_by ?writes ?new (analysed (3/4)) 0)) ?new"
    using C9_update_frame [of ?new "analysed (3/4)" ?writes 0] p by blast
  moreover have "same_config (left (update_by ?quiet ?new (analysed (1/4)) 0)) ?new"
    using C9_update_frame [of ?new "analysed (1/4)" ?quiet 0] q by blast
  ultimately show ?thesis
    by (simp add: same_config_def PeakDetect_def)
qed

section \<open>The constructor\<close>

text \<open>
  Claim C7, as the code has it. Each parameter goes through \<open>arg || default\<close>: a
  supplied number other than \<open>0\<close> is stored as it is, and the default (40, 20000, 0.25,
  5) is stored when the parameter is left out and also when it is \<open>0\<close>, which is falsy.
\<close>

theorem C7_constructor_defaults:
  "f1 (PeakDetect freq1 freq2 thresholdArg framesPerPeakArg :: ('p, 'x, 'w) peakDetect) =
     (case freq1 of Omitted \<Rightarrow> 40 | Num x \<Rightarrow> if x = 0 then 40 else x) \<and>
   f2 (PeakDetect freq1 freq2 thresholdArg framesPerPeakArg :: ('p, 'x, 'w) peakDetect) =
     (case freq2 of Omitted \<Rightarrow> 20000 | Num x \<Rightarrow> if x = 0 then 20000 else x) \<and>
   threshold (PeakDetect freq1 freq2 thresholdArg framesPerPeakArg :: ('p, 'x, 'w) peakDetect) =
     (case thresholdArg of Omitted \<Rightarrow> 0.25 | Num x \<Rightarrow> if x = 0 then 0.25 else x) \<and>
   framesPerPeak (PeakDetect freq1 freq2 thresholdArg framesPerPeakArg :: ('p, 'x, 'w) peakDetect) =
     (case framesPerPeakArg of Omitted \<Rightarrow> 5 | Num x \<Rightarrow> if x = 0 then 5 else x)"
  by (simp add: PeakDetect_def split: arg.splits)

theorem C7_witness:
  "f1 (PeakDetect (Num 60) Omitted (Num 0) (Num 2) :: (unit, unit, unit) peakDetect) = 60 \<and>
   f2 (PeakDetect (Num 60) Omitted (Num 0) (Num 2) :: (unit, unit, unit) peakDetect) = 20000 \<and>
   threshold (PeakDetect (Num 60) Omitted (Num 0) (Num 2) :: (unit, unit, unit) peakDetect) = 1/4 \<and>
   framesPerPeak (PeakDetect (Num 60) Omitted (Num 0) (Num 2) :: (unit, unit, unit) peakDetect) = 2"
  using C7_constructor_defaults [of "Num 60" Omitted "Num 0" "Num 2", where ?'p = unit and ?'x = unit and ?'w = unit]
  by simp

text \<open>
  The claim as stated fails: \<open>new p5.PeakDetect(undefined, undefined, 0)\<close> has the
  threshold 0.25, not the 0 that was supplied.
\<close>

theorem C7_explicit_zero_replaced:
  "threshold (PeakDetect Omitted Omitted (Num 0) Omitted :: (unit, unit, unit) peakDetect) = 0.25 \<and>
   threshold (PeakDetect Omitted Omitted (Num 0) Omitted :: (unit, unit, unit) peakDetect) \<noteq> 0"
  by (simp add: PeakDetect_def)

section \<open>A worked run\<close>

text \<open>
  Claim C3, as the code has it. A new detector with \<open>threshold = 0.25\<close> and
  \<open>framesPerPeak = 2\<close> is fed the samples 0.1, 0.3, 0.5, 0.4, 0.6. Peaks fire at the
  indices 1, 2 and 4 and at no other: 0.3 already exceeds the threshold, the cutoff 0 and
  the previous sample 0.1. The cutoff is \<open>0.3 * 1.1\<close> after index 1, \<open>0.5 * 1.1 = 0.55\<close>
  after index 2 and index 3, and \<open>0.6 * 1.1\<close> after index 4.
\<close>

theorem C3_worked_run:
  "(let d0 = PeakDetect Omitted Omitted (Num 0.25) (Num 2) :: (unit, unit, unit) peakDetect;
        s0 = analysed 0.1; s1 = analysed 0.3; s2 = analysed 0.5; s3 = analysed 0.4;
        s4 = analysed 0.6
    in \<not> isDetected (left (updates d0 [s0] ())) \<and>
       isDetected (left (updates d0 [s0, s1] ())) \<and>
       cutoff (left (updates d0 [s0, s1] ())) = 0.33 \<and>
       isDetected (left (updates d0 [s0, s1, s2] ())) \<and>
       cutoff (left (updates d0 [s0, s1, s2] ())) = 0.55 \<and>
       \<not> isDetected (left (updates d0 [s0, s1, s2, s3] ())) \<and>
       cutoff (left (updates d0 [s0, s1, s2, s3] ())) = 0.55 \<and>
       isDetected (left (updates d0 [s0, s1, s2, s3, s4] ())) \<and>
       cutoff (left (updates d0 [s0, s1, s2, s3, s4] ())) = 0.66)"
  by (simp add: update_cases sample_analysed PeakDetect_def left_def)

text \<open>The claim as stated fails at index 1, where it has no peak.\<close>

theorem C3_peak_at_index_1:
  "isDetected (left (updates
      (PeakDetect Omitted Omitted (Num 0.25) (Num 2) :: (unit, unit, unit) peakDetect)
      [analysed 0.1, analysed 0.3] ()))"
  by (simp add: update_cases sample_analysed PeakDetect_def left_def)

section \<open>The cutoff and the threshold\<close>

lemma initial_window_step:
  assumes "priv_onPeak d = Noop" "0 \<le> decayRate d" "0 \<le> cutoff d"
    and "threshold d \<le> cutoff d \<or> initial_window k d"
  shows "\<exists>d'. update d fft w = Inr (d', w) \<and> priv_onPeak d' = Noop \<and> 0 \<le> decayRate d' \<and>
     0 \<le> cutoff d' \<and> (threshold d' \<le> cutoff d' \<or> initial_window (Suc k) d')"
proof -
  have "0 \<le> cutoff d * decayRate d"
    using assms(2,3) by simp
  then have "0 \<le> max (cutoff d * decayRate d) (threshold d)"
    by (simp add: max_def)
  with assms show ?thesis
    by (auto simp: update_cases initial_window_def)
qed

lemma initial_window_run:
  assumes "priv_onPeak d = Noop" "0 \<le> decayRate d" "0 \<le> cutoff d"
    and "threshold d \<le> cutoff d \<or> initial_window k d"
  shows "\<exists>d'. updates d ffts w = Inr (d', w) \<and>
     (threshold d' \<le> cutoff d' \<or> initial_window (k + length ffts) d')"
  using assms
proof (induction ffts arbitrary: d k)
  case Nil
  then show ?case by simp
next
  case (Cons fft ffts)
  from initial_window_step [OF Cons.prems] obtain d1 where d1: "update d fft w = Inr (d1, w)"
    "priv_onPeak d1 = Noop" "0 \<le> decayRate d1" "0 \<le> cutoff d1"
    "threshold d1 \<le> cutoff d1 \<or> initial_window (Suc k) d1"
    by blast
  from Cons.IH [OF d1(2,3,4,5)] d1(1) show ?case by simp
qed

text \<open>
  Claim C2, as the code has it. The constructor sets \<open>cutoff = 0\<close> whatever the
  threshold is, and only a fired peak or a decay step assigns \<open>cutoff\<close>. So for a new
  detector and any sequence of calls of \<open>update\<close>: every call returns, and after it
  either \<open>cutoff \<ge> threshold\<close>, or the detector is still in its first frames, where no
  peak has fired and no decay has run, \<open>framesSinceLastPeak\<close> has counted every call
  so far (at most \<open>framesPerPeak + 1\<close> of them) and \<open>cutoff\<close> is still 0.
\<close>

theorem C2_cutoff_threshold_after_updates:
  fixes d0 :: "('p, 'x, 'w) peakDetect"
  assumes "d0 = PeakDetect freq1 freq2 thresholdArg framesPerPeakArg"
  shows "\<exists>d'. updates d0 ffts w = Inr (d', w) \<and>
           (threshold d' \<le> cutoff d' \<or>
            cutoff d' = 0 \<and> \<not> isDetected d' \<and>
            framesSinceLastPeak d' = real (length ffts) \<and>
            real (length ffts) \<le> max 0 (framesPerPeak d' + 1))"
proof -
  have "priv_onPeak d0 = Noop" "0 \<le> decayRate d0" "0 \<le> cutoff d0" "initial_window 0 d0"
    using assms by (simp_all add: PeakDetect_def initial_window_def)
  from initial_window_run [OF this(1,2,3), of 0 ffts w] this(4) show ?thesis
    by (simp add: initial_window_def)
qed

theorem C2_witness:
  "\<exists>d'. updates (PeakDetect Omitted Omitted Omitted Omitted :: (unit, unit, unit) peakDetect)
           [analysed (1/10), analysed (1/2), analysed (1/10)] () = Inr (d', ()) \<and>
         threshold d' \<le> cutoff d'"
proof -
  let ?new = "PeakDetect Omitted Omitted Omitted Omitted :: (unit, unit, unit) peakDetect"
  let ?ffts = "[analysed (1/10), analysed (1/2), analysed (1/10)]"
  from C2_cutoff_threshold_after_updates [OF refl, of Omitted Omitted Omitted Omitted ?ffts "()"]
  obtain d' :: "(unit, unit, unit) peakDetect" where d': "updates ?new ?ffts () = Inr (d', ())"
    and "threshold d' \<le> cutoff d' \<or> cutoff d' = 0 \<and> \<not> isDetected d' \<and>
            framesSinceLastPeak d' = real (length ?ffts) \<and>
            real (length ?ffts) \<le> max 0 (framesPerPeak d' + 1)"
    by blast
  moreover have "cutoff (left (updates ?new ?ffts ())) = 11/20"
    by (simp add: update_cases sample_analysed PeakDetect_def left_def)
  ultimately have "threshold d' \<le> cutoff d'"
    by (auto simp: left_def)
  with d' show ?thesis by blast
qed

text \<open>
  The claim as stated fails on the first frame of a new detector: a sample of 0.1 fires no
  peak, and the call leaves \<open>cutoff = 0\<close> below \<open>threshold = 0.25\<close>.
\<close>

theorem C2_cutoff_below_threshold:
  "cutoff (left (update
       (PeakDetect Omitted Omitted Omitted Omitted :: (unit, unit, unit) peakDetect)
       (analysed 0.1) ()))
   < threshold (left (update
       (PeakDetect Omitted Omitted Omitted Omitted :: (unit, unit, unit) peakDetect)
       (analysed 0.1) ()))"
  by (simp add: left_update sample_analysed PeakDetect_def)

section \<open>A constant stream\<close>

lemma flat_step:
  assumes "priv_onPeak d = Noop" "penergy d = e"
  shows "\<exists>d'. update d (analysed e) w = Inr (d', w) \<and> priv_onPeak d' = Noop \<and> penergy d' = e
     \<and> \<not> isDetected d'"
  using assms by (simp add: update_cases sample_analysed)

lemma flat_run:
  assumes "priv_onPeak d = Noop" "penergy d = e" "\<not> isDetected d"
  shows "\<exists>d'. updates d (replicate n (analysed e)) w = Inr (d', w) \<and> \<not> isDetected d'"
  using assms
proof (induction n arbitrary: d)
  case 0
  then show ?case by simp
next
  case (Suc n)
  from flat_step [OF Suc.prems(1,2)] obtain d1 where d1: "update d (analysed e) w = Inr (d1, w)"
    "priv_onPeak d1 = Noop" "penergy d1 = e" "\<not> isDetected d1" by blast
  from Suc.IH [OF d1(2,3,4)] d1(1) show ?case by simp
qed

lemma first_step:
  fixes d0 :: "('p, 'x, 'w) peakDetect"
  assumes "d0 = PeakDetect freq1 freq2 thresholdArg framesPerPeakArg" and "0 < \<epsilon>"
  shows "\<exists>d'. update d0 (analysed (threshold d0 + \<epsilon>)) w = Inr (d', w) \<and> priv_onPeak d' = Noop \<and>
     penergy d' = threshold d0 + \<epsilon> \<and> (isDetected d' \<longleftrightarrow> 0 < threshold d0 + \<epsilon>)"
  using assms by (simp add: update_cases sample_analysed PeakDetect_def)

text \<open>
  The whole run on the constant sample \<open>threshold + \<epsilon>\<close>: every call returns, no call
  after the first fires a peak, and the first fires one exactly when the sample is above 0,
  the initial \<open>cutoff\<close> and \<open>penergy\<close>.
\<close>

lemma constant_stream_run:
  fixes d0 :: "('p, 'x, 'w) peakDetect"
  assumes "d0 = PeakDetect freq1 freq2 thresholdArg framesPerPeakArg" and "0 < \<epsilon>"
  shows "\<exists>d'. updates d0 (replicate (Suc n) (analysed (threshold d0 + \<epsilon>))) w = Inr (d', w) \<and>
           (isDetected d' \<longleftrightarrow> n = 0 \<and> 0 < threshold d0 + \<epsilon>)"
proof -
  from first_step [OF assms] obtain d1
    where d1: "update d0 (analysed (threshold d0 + \<epsilon>)) w = Inr (d1, w)" "priv_onPeak d1 = Noop"
      "penergy d1 = threshold d0 + \<epsilon>" "isDetected d1 \<longleftrightarrow> 0 < threshold d0 + \<epsilon>"
    by blast
  show ?thesis
  proof (cases n)
    case 0
    with d1 show ?thesis by simp
  next
    case (Suc m)
    from flat_step [OF d1(2,3)] obtain d2
      where d2: "update d1 (analysed (threshold d0 + \<epsilon>)) w = Inr (d2, w)" "priv_onPeak d2 = Noop"
        "penergy d2 = threshold d0 + \<epsilon>" "\<not> isDetected d2"
      by blast
    from flat_run [OF d2(2,3,4), of m w] obtain d'
      where "updates d2 (replicate m (analysed (threshold d0 + \<epsilon>))) w = Inr (d', w)"
        "\<not> isDetected d'"
      by blast
    with d1(1) d2(1) Suc show ?thesis by simp
  qed
qed

text \<open>
  Claim C5. A new detector whose threshold is not negative (the documented range is
  \<open>(0, 1]\<close>, the default 0.25) is fed the constant sample \<open>threshold + \<epsilon>\<close> with
  \<open>\<epsilon> > 0\<close>, call after call. Every call returns; \<open>isDetected\<close> is true after the
  first call and false after every later one: exactly one peak fires, however long the
  stream. (The first sample rises above the initial \<open>cutoff\<close> and \<open>penergy\<close>, both 0;
  no later sample exceeds the one before it.)
\<close>

theorem C5_constant_stream_one_peak:
  fixes d0 :: "('p, 'x, 'w) peakDetect"
  assumes "d0 = PeakDetect freq1 freq2 thresholdArg framesPerPeakArg"
    and "0 \<le> threshold d0" and "0 < \<epsilon>"
  shows "\<exists>d'. updates d0 (replicate (Suc n) (analysed (threshold d0 + \<epsilon>))) w = Inr (d', w) \<and>
           (isDetected d' \<longleftrightarrow> n = 0)"
proof -
  have "0 < threshold d0 + \<epsilon>" using assms(2,3) by simp
  with constant_stream_run [OF assms(1,3), of n w] show ?thesis by simp
qed

theorem C5_witness:
  "(\<exists>d'. updates (PeakDetect Omitted Omitted Omitted Omitted :: (unit, unit, unit) peakDetect)
            (replicate (Suc 0) (analysed (1/4 + 1/100))) () = Inr (d', ()) \<and> isDetected d') \<and>
   (\<exists>d'. updates (PeakDetect Omitted Omitted Omitted Omitted :: (unit, unit, unit) peakDetect)
            (replicate (Suc 7) (analysed (1/4 + 1/100))) () = Inr (d', ()) \<and> \<not> isDetected d')"
proof -
  let ?new = "PeakDetect Omitted Omitted Omitted Omitted :: (unit, unit, unit) peakDetect"
  have t: "threshold ?new = 1/4" by (simp add: PeakDetect_def)
  have r: "0 \<le> threshold ?new" by (simp add: t)
  have e: "(0::real) < 1/100" by simp
  show ?thesis
    using C5_constant_stream_one_peak [OF refl r e, of 0 "()"]
      C5_constant_stream_one_peak [OF refl r e, of 7 "()"]
    unfolding t by simp
qed

section \<open>Hold and decay of the cutoff\<close>

lemma reachable_decayRate: "reachable d \<Longrightarrow> decayRate d = 0.95"
proof (induction rule: reachable.induct)
  case (constructed freq1 freq2 thresholdArg framesPerPeakArg)
  show ?case by (simp add: PeakDetect_def)
next
  case (updated d fft w d' w')
  then show ?case by (simp add: update_config)
next
  case (interrupted d fft w x d')
  then show ?case by (auto simp: update_cases split: if_splits sum.splits)
next
  case (registered d callback val)
  then show ?case by (simp add: onPeak_def)
qed

text \<open>A frame that fires no peak either counts up or decays, and touches nothing else.\<close>

lemma no_peak_step:
  assumes "update d fft w = Inr (d', w')" and "\<not> isDetected d'"
  shows "w' = w" "threshold d' = threshold d" "decayRate d' = decayRate d"
    "framesPerPeak d' = framesPerPeak d"
    "framesSinceLastPeak d \<le> framesPerPeak d \<Longrightarrow>
       cutoff d' = cutoff d \<and> framesSinceLastPeak d' = framesSinceLastPeak d + 1"
    "\<not> framesSinceLastPeak d \<le> framesPerPeak d \<Longrightarrow>
       cutoff d' = max (cutoff d * decayRate d) (threshold d) \<and>
       framesSinceLastPeak d' = framesSinceLastPeak d"
  using assms by (auto simp: update_cases split: if_splits sum.splits)

text \<open>
  With the counter at \<open>j\<close> and \<open>framesPerPeak = n\<close>, the next \<open>n + 1 - j\<close> frames
  without a peak count up and every one after them decays.
\<close>

lemma no_peaks_run:
  assumes "no_peaks d ffts w" "framesSinceLastPeak d = real j" "framesPerPeak d = real n"
    "j \<le> n + 1"
  shows "\<exists>d'. updates d ffts w = Inr (d', w) \<and>
           cutoff d' = ((\<lambda>c. max (c * decayRate d) (threshold d)) ^^
                          (length ffts - (n + 1 - j))) (cutoff d) \<and>
           framesSinceLastPeak d' = real (min (j + length ffts) (n + 1))"
  using assms
proof (induction ffts arbitrary: d j)
  case Nil
  then show ?case by simp
next
  case (Cons fft ffts)
  let ?decay = "\<lambda>c. max (c * decayRate d) (threshold d)"
  from Cons.prems(1) obtain d1 w1 where u: "update d fft w = Inr (d1, w1)"
    and q: "\<not> isDetected d1" and rest: "no_peaks d1 ffts w1"
    by (auto split: sum.splits)
  note s = no_peak_step [OF u q]
  have w1: "w1 = w" by (rule s(1))
  note rest = rest [unfolded w1] and u = u [unfolded w1]
  have n1: "framesPerPeak d1 = real n" using s(4) Cons.prems(3) by simp
  show ?case
  proof (cases "j \<le> n")
    case True
    then have hold: "framesSinceLastPeak d \<le> framesPerPeak d"
      using Cons.prems(2,3) by simp
    have c1: "cutoff d1 = cutoff d" and j1: "framesSinceLastPeak d1 = real (Suc j)"
      using s(5) [OF hold] Cons.prems(2) by simp_all
    from Cons.IH [OF rest j1 n1] True obtain d' where
      d': "updates d1 ffts w = Inr (d', w)"
        "cutoff d' = ((\<lambda>c. max (c * decayRate d1) (threshold d1)) ^^
                        (length ffts - (n + 1 - Suc j))) (cutoff d1)"
        "framesSinceLastPeak d' = real (min (Suc j + length ffts) (n + 1))"
      by auto
    have "length (fft # ffts) - (n + 1 - j) = length ffts - (n + 1 - Suc j)"
      using True by simp
    with d' u c1 s(2,3) show ?thesis by simp
  next
    case False
    with Cons.prems(4) have j: "j = n + 1" by simp
    then have decay: "\<not> framesSinceLastPeak d \<le> framesPerPeak d"
      using Cons.prems(2,3) by simp
    have c1: "cutoff d1 = ?decay (cutoff d)" and j1: "framesSinceLastPeak d1 = real j"
      using s(6) [OF decay] Cons.prems(2) by simp_all
    from Cons.IH [OF rest j1 n1 Cons.prems(4)] obtain d' where
      d': "updates d1 ffts w = Inr (d', w)"
        "cutoff d' = ((\<lambda>c. max (c * decayRate d1) (threshold d1)) ^^
                        (length ffts - (n + 1 - j))) (cutoff d1)"
        "framesSinceLastPeak d' = real (min (j + length ffts) (n + 1))"
      by auto
    have "(?decay ^^ length ffts) (?decay (cutoff d)) = (?decay ^^ Suc (length ffts)) (cutoff d)"
      using funpow_swap1 [of ?decay "length ffts" "cutoff d"] by simp
    with d' u c1 s(2,3) j show ?thesis by simp
  qed
qed

text \<open>
  Claim C4, as the code has it. Take the state \<open>d\<close> right after a call that fired a
  peak, with \<open>framesPerPeak\<close> a natural number \<open>n\<close>, and any run of later frames none
  of which fires a peak. The test is \<open>framesSinceLastPeak <= framesPerPeak\<close> with the
  counter starting at 0, so the cutoff is unchanged through the first \<open>n + 1\<close> of these
  frames (not \<open>n\<close>), and each frame after them multiplies it by 0.95 and then clamps it
  from below at \<open>threshold\<close>.
\<close>

theorem C4_hold_then_decay:
  assumes "reachable d0" and "update d0 fft0 w0 = Inr (d, w)" and "isDetected d"
    and "framesPerPeak d = real n" and "no_peaks d ffts w"
  shows "\<exists>d'. updates d ffts w = Inr (d', w) \<and>
           cutoff d' =
             (if length ffts \<le> n + 1 then cutoff d
              else ((\<lambda>c. max (c * 0.95) (threshold d)) ^^ (length ffts - (n + 1))) (cutoff d))"
proof -
  have "reachable d" using assms(1,2) by (rule reachable.updated)
  then have r: "decayRate d = 0.95" by (rule reachable_decayRate)
  have z: "framesSinceLastPeak d = real 0"
    using assms(2,3) by (auto simp: update_cases split: if_splits sum.splits)
  from no_peaks_run [OF assms(5) z assms(4)] r show ?thesis
    by auto
qed

theorem C4_witness:
  "\<exists>d'. updates
          (PeakDetect Omitted Omitted Omitted (Num 2)
             \<lparr>energy := 1/2, isDetected := True, cutoff := 11/20, penergy := 1/2\<rparr>
             :: (unit, unit, unit) peakDetect)
          [analysed (1/10), analysed (1/10), analysed (1/10), analysed (1/10), analysed (1/10)] ()
        = Inr (d', ()) \<and>
        cutoff d' = 11/20 * (19/20) * (19/20)"
proof -
  let ?new = "PeakDetect Omitted Omitted Omitted (Num 2) :: (unit, unit, unit) peakDetect"
  let ?fired = "?new\<lparr>energy := 1/2, isDetected := True, cutoff := 11/20, penergy := 1/2\<rparr>"
  let ?ffts = "[analysed (1/10), analysed (1/10), analysed (1/10), analysed (1/10), analysed (1/10)]"
  have r: "reachable ?new" by (rule reachable.constructed)
  have u: "update ?new (analysed (1/2)) () = Inr (?fired, ())"
    by (simp add: update_cases sample_analysed PeakDetect_def)
  have i: "isDetected ?fired" by simp
  have n: "framesPerPeak ?fired = real 2" by (simp add: PeakDetect_def)
  have q: "no_peaks ?fired ?ffts ()"
    by (simp add: update_cases sample_analysed PeakDetect_def)
  have f: "((\<lambda>c. max (c * 0.95) (threshold ?fired)) ^^ (length ?ffts - (2 + 1))) (cutoff ?fired)
      = 11/20 * (19/20) * (19/20)"
    by (simp add: PeakDetect_def numeral_2_eq_2)
  show ?thesis
    using C4_hold_then_decay [OF r u i n q] f by simp
qed

text \<open>
  The claim as stated fails for \<open>framesPerPeak = 2\<close>: after a peak on 0.5 the cutoff is
  0.55, three frames without a peak follow, and the cutoff is still 0.55 after the third,
  where the claim has it decayed to 0.5225.
\<close>

theorem C4_third_frame_still_held:
  "update (PeakDetect Omitted Omitted Omitted (Num 2) :: (unit, unit, unit) peakDetect)
       (analysed (1/2)) ()
     = Inr (PeakDetect Omitted Omitted Omitted (Num 2)
              \<lparr>energy := 1/2, isDetected := True, cutoff := 11/20, penergy := 1/2\<rparr>, ()) \<and>
   isDetected (PeakDetect Omitted Omitted Omitted (Num 2)
              \<lparr>energy := 1/2, isDetected := True, cutoff := 11/20, penergy := 1/2\<rparr>
              :: (unit, unit, unit) peakDetect) \<and>
   framesPerPeak (PeakDetect Omitted Omitted Omitted (Num 2)
              \<lparr>energy := 1/2, isDetected := True, cutoff := 11/20, penergy := 1/2\<rparr>
              :: (unit, unit, unit) peakDetect) = 2 \<and>
   no_peaks (PeakDetect Omitted Omitted Omitted (Num 2)
              \<lparr>energy := 1/2, isDetected := True, cutoff := 11/20, penergy := 1/2\<rparr>
              :: (unit, unit, unit) peakDetect)
      [analysed (1/10), analysed (1/10), analysed (1/10)] () \<and>
   cutoff (left (updates (PeakDetect Omitted Omitted Omitted (Num 2)
              \<lparr>energy := 1/2, isDetected := True, cutoff := 11/20, penergy := 1/2\<rparr>
              :: (unit, unit, unit) peakDetect)
      [analysed (1/10), analysed (1/10), analysed (1/10)] ())) = 11/20 \<and>
   max (cutoff (PeakDetect Omitted Omitted Omitted (Num 2)
              \<lparr>energy := 1/2, isDetected := True, cutoff := 11/20, penergy := 1/2\<rparr>
              :: (unit, unit, unit) peakDetect) * 0.95)
       (threshold (PeakDetect Omitted Omitted Omitted (Num 2)
              \<lparr>energy := 1/2, isDetected := True, cutoff := 11/20, penergy := 1/2\<rparr>
              :: (unit, unit, unit) peakDetect)) = 209/400"
  by (simp add: update_cases sample_analysed PeakDetect_def left_def)

section \<open>The observer\<close>

lemma updates_slot:
  assumes "updates d ffts w = Inr (d', w')"
  shows "priv_onPeak d' = priv_onPeak d"
  using assms
proof (induction ffts arbitrary: d w)
  case Nil
  then show ?case by simp
next
  case (Cons fft ffts)
  from Cons.prems obtain d1 w1 where u: "update d fft w = Inr (d1, w1)"
    and r: "updates d1 ffts w1 = Inr (d', w')"
    by (auto split: sum.splits)
  from Cons.IH [OF r] update_config(6) [OF u] show ?case by simp
qed

text \<open>
  Claim C8. \<open>onPeak(callback, val)\<close> overwrites the one slot, whatever observer
  \<open>previous\<close> was in it, and \<open>update\<close> never assigns the slot. So after any number of
  later frames the slot still holds the closure over \<open>callback\<close> and \<open>val\<close>, and the
  next call of \<open>update\<close>, when it fires a peak, changes the world by exactly one call
  \<open>callback(energy, val)\<close>, with \<open>energy\<close> the field as the call has just set it;
  when it fires none the world is as before. The run is the same whatever
  \<open>previous\<close> was: that observer is not called again.
\<close>

theorem C8_onPeak_replaces_observer:
  assumes "updates (onPeak d callback val) ffts w = Inr (d1, w1)"
    and "update d1 fft w1 = Inr (d2, w2)"
  shows "priv_onPeak d2 = Closure callback val \<and>
         energy d2 = sample d1 fft \<and>
         (if isDetected d2 then callback (energy d2) val w1 = Inr w2 else w2 = w1) \<and>
         updates (onPeak (d\<lparr>priv_onPeak := previous\<rparr>) callback val) ffts w = Inr (d1, w1)"
proof (intro conjI)
  have slot: "priv_onPeak d1 = Closure callback val"
    using updates_slot [OF assms(1)] by (simp add: onPeak_def)
  show "priv_onPeak d2 = Closure callback val"
    using update_config(6) [OF assms(2)] slot by simp
  show "energy d2 = sample d1 fft"
    using assms(2) by (auto simp: update_cases split: if_splits sum.splits)
  show "if isDetected d2 then callback (energy d2) val w1 = Inr w2 else w2 = w1"
    using assms(2) slot by (auto simp: update_cases split: if_splits sum.splits)
  have "onPeak (d\<lparr>priv_onPeak := previous\<rparr>) callback val = onPeak d callback val"
    by (simp add: onPeak_def)
  then show "updates (onPeak (d\<lparr>priv_onPeak := previous\<rparr>) callback val) ffts w = Inr (d1, w1)"
    using assms(1) by simp
qed

theorem C8_witness:
  "\<exists>d1 d2.
     updates
       (onPeak
          (onPeak (PeakDetect Omitted Omitted Omitted Omitted)
             (\<lambda>e v w. Inr ((e, v) # w)) ''first'')
          (\<lambda>e v w. Inr ((e, v) # w)) ''second'' :: (string, unit, (real \<times> string) list) peakDetect)
       [analysed (1/10)] [] = Inr (d1, []) \<and>
     update d1 (analysed (1/2)) [] = Inr (d2, [(1/2, ''second'')]) \<and>
     isDetected d2 \<and>
     priv_onPeak d2 = Closure (\<lambda>e v w. Inr ((e, v) # w)) ''second''"
proof -
  let ?log = "(\<lambda>e v w. Inr ((e, v) # w)) :: (string, unit, (real \<times> string) list) callback"
  let ?old = "onPeak (PeakDetect Omitted Omitted Omitted Omitted) ?log ''first''"
  let ?a = "onPeak ?old ?log ''second''\<lparr>energy := 1/10, framesSinceLastPeak := 1, penergy := 1/10\<rparr>"
  let ?b = "?a\<lparr>energy := 1/2, isDetected := True, cutoff := 11/20,
                framesSinceLastPeak := 0, penergy := 1/2\<rparr>"
  have h1: "updates (onPeak ?old ?log ''second'') [analysed (1/10)] [] = Inr (?a, [])"
    by (simp add: update_cases sample_analysed PeakDetect_def onPeak_def)
  have h2: "update ?a (analysed (1/2)) [] = Inr (?b, [(1/2, ''second'')])"
    by (simp add: update_cases sample_analysed PeakDetect_def onPeak_def)
  have "isDetected ?b" by simp
  moreover have "priv_onPeak ?b = Closure ?log ''second''"
    using C8_onPeak_replaces_observer [OF h1 h2] by blast
  ultimately show ?thesis using h1 h2 by blast
qed

text \<open>A detector that was never given an observer behaves as one whose observer does nothing.\<close>

lemma quiet_observer_step:
  assumes "priv_onPeak d = Noop" and "\<forall>e v w. callback e v w = Inr w"
  shows "\<exists>d'. update d fft w = Inr (d', w) \<and> priv_onPeak d' = Noop \<and>
     update (onPeak d callback val) fft w = Inr (onPeak d' callback val, w)"
  using assms by (simp add: update_cases onPeak_def sample_def)

lemma quiet_observer_run:
  assumes "priv_onPeak d = Noop" and "\<forall>e v w. callback e v w = Inr w"
  shows "\<exists>d'. updates d ffts w = Inr (d', w) \<and> priv_onPeak d' = Noop \<and>
     updates (onPeak d callback val) ffts w = Inr (onPeak d' callback val, w)"
  using assms(1)
proof (induction ffts arbitrary: d)
  case Nil
  then show ?case by simp
next
  case (Cons fft ffts)
  from quiet_observer_step [OF Cons.prems assms(2)] obtain d1 where
    d1: "update d fft w = Inr (d1, w)" "priv_onPeak d1 = Noop"
      "update (onPeak d callback val) fft w = Inr (onPeak d1 callback val, w)"
    by blast
  from Cons.IH [OF d1(2)] d1(1,3) show ?case by simp
qed

text \<open>
  Claim C10. The constructor puts the no-op closure into the slot. Hence, on a new
  detector, any sequence of calls of \<open>update\<close> made before any call of \<open>onPeak\<close>
  returns (frames that fire a peak included), leaves the world as it was, and ends in
  the state that the same calls reach with an observer whose callback does nothing: the
  two states differ in the slot only.
\<close>

theorem C10_new_detector_has_noop_observer:
  fixes d0 :: "('p, 'x, 'w) peakDetect"
  assumes "d0 = PeakDetect freq1 freq2 thresholdArg framesPerPeakArg"
  shows "priv_onPeak d0 = Noop \<and>
         (\<exists>d'. updates d0 ffts w = Inr (d', w) \<and> priv_onPeak d' = Noop \<and>
            (\<forall>callback val. (\<forall>e v w. callback e v w = Inr w) \<longrightarrow>
               updates (onPeak d0 callback val) ffts w = Inr (onPeak d' callback val, w)))"
proof -
  have n: "priv_onPeak d0 = Noop" by (simp add: assms PeakDetect_def)
  from updates_Noop [OF n] obtain d'
    where d': "updates d0 ffts w = Inr (d', w)" "priv_onPeak d' = Noop"
    by blast
  have "updates (onPeak d0 callback val) ffts w = Inr (onPeak d' callback val, w)"
    if "\<forall>e v w. callback e v w = Inr w" for callback val
    using quiet_observer_run [OF n that, of ffts w val] d'(1) by simp
  with n d' show ?thesis by blast
qed

theorem C10_witness:
  "\<exists>d'. updates (PeakDetect Omitted Omitted Omitted Omitted :: (string, unit, nat) peakDetect)
           [analysed (1/10), analysed (1/2)] 7 = Inr (d', 7) \<and>
         isDetected d' \<and> priv_onPeak d' = Noop \<and>
         updates (onPeak (PeakDetect Omitted Omitted Omitted Omitted) (\<lambda>e v w. Inr w) ''x'')
           [analysed (1/10), analysed (1/2)] 7 = Inr (onPeak d' (\<lambda>e v w. Inr w) ''x'', 7)"
proof -
  let ?new = "PeakDetect Omitted Omitted Omitted Omitted :: (string, unit, nat) peakDetect"
  let ?ffts = "[analysed (1/10), analysed (1/2)]"
  let ?quiet = "(\<lambda>e v w. Inr w) :: (string, unit, nat) callback"
  from C10_new_detector_has_noop_observer [OF refl, of Omitted Omitted Omitted Omitted ?ffts 7,
      where ?'p = string and ?'x = unit]
  obtain d' :: "(string, unit, nat) peakDetect"
    where d': "updates ?new ?ffts 7 = Inr (d', 7)" "priv_onPeak d' = Noop"
      "\<forall>callback val. (\<forall>e v w. callback e v w = Inr w) \<longrightarrow>
         updates (onPeak ?new callback val) ?ffts 7 = Inr (onPeak d' callback val, 7)"
    by blast
  have "(\<forall>e v w. ?quiet e v w = Inr w) \<longrightarrow>
      updates (onPeak ?new ?quiet ''x'') ?ffts 7 = Inr (onPeak d' ?quiet ''x'', 7)"
    using d'(3) by (elim allE)
  then have o: "updates (onPeak ?new ?quiet ''x'') ?ffts 7 = Inr (onPeak d' ?quiet ''x'', 7)"
    by simp
  have "isDetected (left (updates ?new ?ffts 7))"
    by (simp add: update_cases sample_analysed PeakDetect_def left_def)
  with d'(1) have "isDetected d'" by (simp add: left_def)
  with d'(1,2) o show ?thesis by blast
qed

end
